theory Spec2Isabelle
  imports Complex_Main "HOL-Library.Sublist"
begin

section \<open>Python values, exceptions and string methods\<close>

text \<open>
  The scripts pass JSON-shaped Python values around: the arguments a tool call carries
  (after \<^verbatim>\<open>json.loads\<close>), the dictionaries the handlers return, and the value
  \<^verbatim>\<open>eval\<close> produces. A dictionary is an association list in insertion order.
  A float is the rational its literal denotes; the code does no arithmetic on floats.
  \<open>PyTuple\<close> and \<open>PyEllipsis\<close> are the two non-JSON values \<^verbatim>\<open>eval\<close> can
  return for an expression over the allow-list (\<^verbatim>\<open>()\<close> and \<^verbatim>\<open>...\<close>).
  A Python string is the list of the bytes of its UTF-8 encoding; \<open>chars\<close> splits
  it into its characters, for the operations that count or remove characters.
\<close>

datatype pyval =
    PyNone
  | PyBool bool
  | PyInt int
  | PyFloat rat
  | PyStr string
  | PyList "pyval list"
  | PyDict "(string \<times> pyval) list"
  | PyTuple "pyval list"
  | PyEllipsis

text \<open>
  Exceptions are values. Every exception here is a subclass of Python's
  \<^verbatim>\<open>Exception\<close>; the string is a detail of the exception (a message, or the
  missing key of a \<open>KeyError\<close>). \<open>APIError\<close> stands for whatever the client
  library raises for a failed request.
\<close>

datatype exn =
    KeyError string
  | TypeError string
  | AttributeError string
  | IndexError string
  | ValueError string
  | JSONDecodeError string
  | APIError string

fun str_exn :: "exn \<Rightarrow> string" where
  "str_exn (KeyError k) = CHR 0x27 # k @ [CHR 0x27]"
| "str_exn (TypeError m) = m"
| "str_exn (AttributeError m) = m"
| "str_exn (IndexError m) = m"
| "str_exn (ValueError m) = m"
| "str_exn (JSONDecodeError m) = m"
| "str_exn (APIError m) = m"

definition quote :: "string \<Rightarrow> string" where
  "quote s = CHR 0x27 # s @ [CHR 0x27]"

fun type_name :: "pyval \<Rightarrow> string" where
  "type_name PyNone = ''NoneType''"
| "type_name (PyBool _) = ''bool''"
| "type_name (PyInt _) = ''int''"
| "type_name (PyFloat _) = ''float''"
| "type_name (PyStr _) = ''str''"
| "type_name (PyList _) = ''list''"
| "type_name (PyDict _) = ''dict''"
| "type_name (PyTuple _) = ''tuple''"
| "type_name PyEllipsis = ''ellipsis''"

fun hashable :: "pyval \<Rightarrow> bool" where
  "hashable (PyList _) = False"
| "hashable (PyDict _) = False"
| "hashable (PyTuple xs) = list_all hashable xs"
| "hashable _ = True"

text \<open>
  The characters of a string: each byte that is not a continuation byte (\<open>10xxxxxx\<close>)
  starts a character, which runs over the continuation bytes that follow it.
\<close>

fun is_continuation :: "char \<Rightarrow> bool" where
  "is_continuation (Char b0 b1 b2 b3 b4 b5 b6 b7) = (b7 \<and> \<not> b6)"

function chars :: "string \<Rightarrow> string list" where
  "chars [] = []"
| "chars (c # s) = (c # takeWhile is_continuation s) # chars (dropWhile is_continuation s)"
  by pat_completeness auto
termination
  by (relation "measure length") (auto simp: length_dropWhile_le less_Suc_eq_le)

text \<open>
  The characters \<^verbatim>\<open>str.strip()\<close> removes, in UTF-8: U+0009 to U+000D, U+001C to
  U+0020, U+0085, U+00A0, U+1680, U+2000 to U+200A, U+2028, U+2029, U+202F, U+205F and
  U+3000.
\<close>

definition whitespace :: "string set" where
  "whitespace =
     {[CHR 0x09], [CHR 0x0A], [CHR 0x0B], [CHR 0x0C], [CHR 0x0D],
      [CHR 0x1C], [CHR 0x1D], [CHR 0x1E], [CHR 0x1F], [CHR 0x20],
      [CHR 0xC2, CHR 0x85], [CHR 0xC2, CHR 0xA0], [CHR 0xE1, CHR 0x9A, CHR 0x80],
      [CHR 0xE2, CHR 0x80, CHR 0x80], [CHR 0xE2, CHR 0x80, CHR 0x81],
      [CHR 0xE2, CHR 0x80, CHR 0x82], [CHR 0xE2, CHR 0x80, CHR 0x83],
      [CHR 0xE2, CHR 0x80, CHR 0x84], [CHR 0xE2, CHR 0x80, CHR 0x85],
      [CHR 0xE2, CHR 0x80, CHR 0x86], [CHR 0xE2, CHR 0x80, CHR 0x87],
      [CHR 0xE2, CHR 0x80, CHR 0x88], [CHR 0xE2, CHR 0x80, CHR 0x89],
      [CHR 0xE2, CHR 0x80, CHR 0x8A], [CHR 0xE2, CHR 0x80, CHR 0xA8],
      [CHR 0xE2, CHR 0x80, CHR 0xA9], [CHR 0xE2, CHR 0x80, CHR 0xAF],
      [CHR 0xE2, CHR 0x81, CHR 0x9F], [CHR 0xE3, CHR 0x80, CHR 0x80]}"

definition strip :: "string \<Rightarrow> string" where
  "strip s =
     concat (rev (dropWhile (\<lambda>c. c \<in> whitespace)
                    (rev (dropWhile (\<lambda>c. c \<in> whitespace) (chars s)))))"

text \<open>
  \<^verbatim>\<open>str.lower()\<close> and \<^verbatim>\<open>str.upper()\<close> follow the case mappings of Unicode and are
  parameters of the handlers that call them. \<open>ascii_lower\<close> and \<open>ascii_upper\<close> are
  what the two methods do on a string of ASCII characters; the examples, which are
  ASCII, use them.
\<close>

definition ascii_lower :: "string \<Rightarrow> string" where
  "ascii_lower s =
     map (\<lambda>c. case map_of (zip ''ABCDEFGHIJKLMNOPQRSTUVWXYZ'' ''abcdefghijklmnopqrstuvwxyz'') c of
                 Some d \<Rightarrow> d
               | None \<Rightarrow> c) s"

definition ascii_upper :: "string \<Rightarrow> string" where
  "ascii_upper s =
     map (\<lambda>c. case map_of (zip ''abcdefghijklmnopqrstuvwxyz'' ''ABCDEFGHIJKLMNOPQRSTUVWXYZ'') c of
                 Some d \<Rightarrow> d
               | None \<Rightarrow> c) s"


section \<open>The tool handlers (3\_openai\_tool\_calling.py)\<close>

subsection \<open>get\_weather\<close>

record weather =
  temp :: int
  condition :: string
  humidity :: int

definition weather_data :: "(string \<times> weather) list" where
  "weather_data =
     [(''london'', \<lparr>temp = 15, condition = ''Cloudy'', humidity = 65\<rparr>),
      (''new york'', \<lparr>temp = 22, condition = ''Sunny'', humidity = 45\<rparr>),
      (''tokyo'', \<lparr>temp = 18, condition = ''Rainy'', humidity = 80\<rparr>),
      (''paris'', \<lparr>temp = 17, condition = ''Partly Cloudy'', humidity = 55\<rparr>),
      (''sydney'', \<lparr>temp = 25, condition = ''Sunny'', humidity = 50\<rparr>)]"

text \<open>
  \<^verbatim>\<open>location.lower()\<close> exists only on a string: any other value raises
  \<^verbatim>\<open>AttributeError\<close>. \<open>unit\<close> is copied into the result whatever it is.
  The first parameter is \<^verbatim>\<open>str.lower\<close>.
\<close>

definition get_weather :: "(string \<Rightarrow> string) \<Rightarrow> pyval \<Rightarrow> pyval \<Rightarrow> exn + pyval" where
  "get_weather lower location unit =
     (case location of
        PyStr s \<Rightarrow>
          (let location_lower = lower s;
               data = (case map_of weather_data location_lower of
                         Some d \<Rightarrow> d
                       | None \<Rightarrow> \<lparr>temp = 20, condition = ''Unknown'', humidity = 50\<rparr>)
           in Inr (PyDict
                [(''location'', location),
                 (''temperature'', PyInt (temp data)),
                 (''unit'', unit),
                 (''condition'', PyStr (condition data)),
                 (''humidity'', PyInt (humidity data))]))
      | _ \<Rightarrow> Inl (AttributeError (quote (type_name location) @ '' object has no attribute '' @ quote ''lower'')))"

subsection \<open>calculate\<close>

definition allowed_chars :: "char set" where
  "allowed_chars = set ''0123456789+-*/(). ''"

text \<open>What \<^verbatim>\<open>for c in expression\<close> yields: the characters of a string, the items of
  a list or tuple, the keys of a dictionary; anything else is not iterable. A string is
  read byte by byte here: the bytes of a character outside ASCII are all outside the
  allow-list, as the character is, so the test below comes out the same.\<close>

definition iterate :: "pyval \<Rightarrow> exn + pyval list" where
  "iterate v =
     (case v of
        PyStr s \<Rightarrow> Inr (map (\<lambda>c. PyStr [c]) s)
      | PyList xs \<Rightarrow> Inr xs
      | PyTuple xs \<Rightarrow> Inr xs
      | PyDict kvs \<Rightarrow> Inr (map PyStr (remdups (map fst kvs)))
      | _ \<Rightarrow> Inl (TypeError (quote (type_name v) @ '' object is not iterable'')))"

text \<open>
  \<^verbatim>\<open>all(c in allowed_chars for c in expression)\<close>: the items are tested in order and
  the test stops at the first one outside the set; testing an unhashable item raises
  \<^verbatim>\<open>TypeError\<close>. A member of the set is a string of exactly one allowed character.
\<close>

fun all_allowed :: "pyval list \<Rightarrow> exn + bool" where
  "all_allowed [] = Inr True"
| "all_allowed (c # cs) =
     (if \<not> hashable c then Inl (TypeError (''unhashable type: '' @ quote (type_name c)))
      else if (case c of PyStr [ch] \<Rightarrow> ch \<in> allowed_chars | _ \<Rightarrow> False) then all_allowed cs
      else Inr False)"

text \<open>
  \<^verbatim>\<open>eval\<close> is Python's evaluator, a parameter here: on a string it either raises an
  exception, given by its message \<^verbatim>\<open>str(e)\<close>, or returns a value. The whole body of
  \<open>calculate\<close> stands in \<^verbatim>\<open>try: ... except Exception as e: return {"error": str(e)}\<close>,
  so each exception of the body becomes an error record.
\<close>

definition calculate :: "(string \<Rightarrow> string + pyval) \<Rightarrow> pyval \<Rightarrow> exn + pyval" where
  "calculate eval expression =
     (case (case iterate expression of Inl e \<Rightarrow> Inl e | Inr cs \<Rightarrow> all_allowed cs) of
        Inl e \<Rightarrow> Inr (PyDict [(''error'', PyStr (str_exn e))])
      | Inr False \<Rightarrow> Inr (PyDict [(''error'', PyStr ''Invalid characters in expression'')])
      | Inr True \<Rightarrow>
          (case expression of
             PyStr s \<Rightarrow>
               (case eval s of
                  Inl msg \<Rightarrow> Inr (PyDict [(''error'', PyStr msg)])
                | Inr result \<Rightarrow> Inr (PyDict [(''expression'', expression), (''result'', result)]))
           | _ \<Rightarrow> Inr (PyDict [(''error'',
                    PyStr ''eval() arg 1 must be a string, bytes or code object'')])))"

subsection \<open>get\_stock\_price\<close>

record stock =
  price :: pyval
  change :: pyval
  change_percent :: pyval

definition stock_data :: "(string \<times> stock) list" where
  "stock_data =
     [(''AAPL'', \<lparr>price = PyFloat (17850 / 100), change = PyFloat (230 / 100),
                 change_percent = PyFloat (131 / 100)\<rparr>),
      (''GOOGL'', \<lparr>price = PyFloat (14280 / 100), change = PyFloat (- 120 / 100),
                  change_percent = PyFloat (- 83 / 100)\<rparr>),
      (''MSFT'', \<lparr>price = PyFloat (41530 / 100), change = PyFloat (540 / 100),
                 change_percent = PyFloat (132 / 100)\<rparr>),
      (''TSLA'', \<lparr>price = PyFloat (24280 / 100), change = PyFloat (860 / 100),
                 change_percent = PyFloat (367 / 100)\<rparr>),
      (''AMZN'', \<lparr>price = PyFloat (17825 / 100), change = PyFloat (- 50 / 100),
                 change_percent = PyFloat (- 28 / 100)\<rparr>)]"

text \<open>The first parameter is \<^verbatim>\<open>str.upper\<close>.\<close>

definition get_stock_price :: "(string \<Rightarrow> string) \<Rightarrow> pyval \<Rightarrow> exn + pyval" where
  "get_stock_price upper symbol =
     (case symbol of
        PyStr s \<Rightarrow>
          (let symbol_upper = upper s;
               data = (case map_of stock_data symbol_upper of
                         Some d \<Rightarrow> d
                       | None \<Rightarrow> \<lparr>price = PyInt 0, change = PyInt 0, change_percent = PyInt 0\<rparr>)
           in Inr (PyDict
                [(''symbol'', PyStr symbol_upper),
                 (''price'', price data),
                 (''change'', change data),
                 (''change_percent'', change_percent data)]))
      | _ \<Rightarrow> Inl (AttributeError (quote (type_name symbol) @ '' object has no attribute '' @ quote ''upper'')))"

subsection \<open>send\_email\<close>

text \<open>
  \<open>str_of\<close> is Python's \<^verbatim>\<open>str()\<close> as the f-string applies it to a value that is not
  a string (a parameter). The preview is
  \<^verbatim>\<open>(body[:50] + "...") if len(body) > 50 else body\<close>: the length of a string is
  the number of its characters and the slice keeps its first 50 characters; a value
  without a length raises, a long list or tuple cannot be concatenated with a string, a
  long dictionary cannot be sliced.
\<close>

definition body_preview :: "pyval \<Rightarrow> exn + pyval" where
  "body_preview body =
     (case body of
        PyStr s \<Rightarrow>
          Inr (if length (chars s) > 50 then PyStr (concat (take 50 (chars s)) @ ''...'')
               else body)
      | PyList xs \<Rightarrow>
          (if length xs > 50 then Inl (TypeError ''can only concatenate list (not str) to list'')
           else Inr body)
      | PyTuple xs \<Rightarrow>
          (if length xs > 50 then Inl (TypeError ''can only concatenate tuple (not str) to tuple'')
           else Inr body)
      | PyDict kvs \<Rightarrow>
          (if length (remdups (map fst kvs)) > 50 then Inl (TypeError ''unhashable type: slice'')
           else Inr body)
      | _ \<Rightarrow> Inl (TypeError (''object of type '' @ quote (type_name body) @ '' has no len()'')))"

definition send_email :: "(pyval \<Rightarrow> string) \<Rightarrow> pyval \<Rightarrow> pyval \<Rightarrow> pyval \<Rightarrow> exn + pyval" where
  "send_email str_of to subject body =
     (case body_preview body of
        Inl e \<Rightarrow> Inl e
      | Inr preview \<Rightarrow>
          Inr (PyDict
            [(''status'', PyStr ''success''),
             (''message'', PyStr (''Email sent to '' @ (case to of PyStr s \<Rightarrow> s | _ \<Rightarrow> str_of to))),
             (''to'', to),
             (''subject'', subject),
             (''body_preview'', preview)]))"

subsection \<open>search\_database\<close>

definition results :: "(string \<times> pyval list) list" where
  "results =
     [(''users'',
        [PyDict [(''id'', PyInt 1), (''name'', PyStr ''Alice Johnson''), (''email'', PyStr ''alice@example.com'')],
         PyDict [(''id'', PyInt 2), (''name'', PyStr ''Bob Smith''), (''email'', PyStr ''bob@example.com'')],
         PyDict [(''id'', PyInt 3), (''name'', PyStr ''Charlie Brown''), (''email'', PyStr ''charlie@example.com'')]]),
      (''products'',
        [PyDict [(''id'', PyInt 101), (''name'', PyStr ''Laptop''), (''price'', PyInt 999)],
         PyDict [(''id'', PyInt 102), (''name'', PyStr ''Mouse''), (''price'', PyInt 29)],
         PyDict [(''id'', PyInt 103), (''name'', PyStr ''Keyboard''), (''price'', PyInt 79)]]),
      (''orders'',
        [PyDict [(''id'', PyInt 501), (''customer'', PyStr ''Alice''), (''total'', PyInt 1107)],
         PyDict [(''id'', PyInt 502), (''customer'', PyStr ''Bob''), (''total'', PyInt 79)]])]"

text \<open>\<^verbatim>\<open>results.get(table, [])\<close> hashes its key: an unhashable key raises, a key that
  is not one of the three table names gives the empty list.\<close>

definition search_database :: "pyval \<Rightarrow> pyval \<Rightarrow> exn + pyval" where
  "search_database query table =
     (if \<not> hashable table then Inl (TypeError (''unhashable type: '' @ quote (type_name table)))
      else
        (let table_data = (case table of
                             PyStr t \<Rightarrow> (case map_of results t of Some rows \<Rightarrow> rows | None \<Rightarrow> [])
                           | _ \<Rightarrow> [])
         in Inr (PyDict
              [(''table'', table),
               (''query'', query),
               (''results'', PyList table_data),
               (''count'', PyInt (int (length table_data)))])))"


section \<open>The tool catalog and the call of a handler\<close>

record property =
  prop_name :: string
  prop_type :: string
  prop_enum :: "string list option"
  prop_description :: string

text \<open>One entry of \<^verbatim>\<open>tools\<close>. Every entry has type \<^verbatim>\<open>"function"\<close>, parameters of
  type \<^verbatim>\<open>"object"\<close> and \<^verbatim>\<open>"additionalProperties": False\<close>.\<close>

record tool_descriptor =
  tool_name :: string
  tool_description :: string
  tool_properties :: "property list"
  tool_required :: "string list"

definition tools :: "tool_descriptor list" where
  "tools =
     [\<lparr>tool_name = ''get_weather'',
       tool_description = ''Get the current weather for a specific location'',
       tool_properties =
         [\<lparr>prop_name = ''location'', prop_type = ''string'', prop_enum = None,
           prop_description = ''The city name, e.g., London, New York''\<rparr>,
          \<lparr>prop_name = ''unit'', prop_type = ''string'',
           prop_enum = Some [''celsius'', ''fahrenheit''],
           prop_description = ''The temperature unit''\<rparr>],
       tool_required = [''location'']\<rparr>,
      \<lparr>tool_name = ''calculate'',
       tool_description = ''Perform a mathematical calculation'',
       tool_properties =
         [\<lparr>prop_name = ''expression'', prop_type = ''string'', prop_enum = None,
           prop_description = ''The mathematical expression to evaluate, e.g., '2 + 2' or '10 * 5'' @ [CHR 0x27]\<rparr>],
       tool_required = [''expression'']\<rparr>,
      \<lparr>tool_name = ''get_stock_price'',
       tool_description = ''Get the current stock price for a company symbol'',
       tool_properties =
         [\<lparr>prop_name = ''symbol'', prop_type = ''string'', prop_enum = None,
           prop_description = ''The stock ticker symbol, e.g., AAPL, GOOGL, MSFT''\<rparr>],
       tool_required = [''symbol'']\<rparr>,
      \<lparr>tool_name = ''send_email'',
       tool_description = ''Send an email to a recipient'',
       tool_properties =
         [\<lparr>prop_name = ''to'', prop_type = ''string'', prop_enum = None,
           prop_description = ''The recipient's email address''\<rparr>,
          \<lparr>prop_name = ''subject'', prop_type = ''string'', prop_enum = None,
           prop_description = ''The email subject line''\<rparr>,
          \<lparr>prop_name = ''body'', prop_type = ''string'', prop_enum = None,
           prop_description = ''The email body content''\<rparr>],
       tool_required = [''to'', ''subject'', ''body'']\<rparr>,
      \<lparr>tool_name = ''search_database'',
       tool_description = ''Search a database table for records'',
       tool_properties =
         [\<lparr>prop_name = ''query'', prop_type = ''string'', prop_enum = None,
           prop_description = ''The search query''\<rparr>,
          \<lparr>prop_name = ''table'', prop_type = ''string'',
           prop_enum = Some [''users'', ''products'', ''orders''],
           prop_description = ''The database table to search''\<rparr>],
       tool_required = [''query'']\<rparr>]"

text \<open>
  A Python function as \<^verbatim>\<open>function_to_call(**function_args)\<close> sees it: the parameters
  without a default, the parameters with their defaults, and the body, which reads its
  parameters by name.
\<close>

record py_function =
  params :: "string list"
  defaults :: "(string \<times> pyval) list"
  body :: "(string \<Rightarrow> pyval) \<Rightarrow> exn + pyval"

text \<open>
  The call \<^verbatim>\<open>f(**function_args)\<close>: the argument must be a mapping, each of its keys a
  parameter of \<open>f\<close>, and every parameter without a default must be among the keys;
  otherwise the call raises \<^verbatim>\<open>TypeError\<close> and the body does not run.
\<close>

definition call_kwargs :: "py_function \<Rightarrow> pyval \<Rightarrow> exn + pyval" where
  "call_kwargs f function_args =
     (case function_args of
        PyDict kwargs \<Rightarrow>
          (case filter (\<lambda>k. k \<notin> set (params f) \<union> set (map fst (defaults f))) (map fst kwargs) of
             k # _ \<Rightarrow> Inl (TypeError (''got an unexpected keyword argument '' @ quote k))
           | [] \<Rightarrow>
               (case filter (\<lambda>k. map_of kwargs k = None) (params f) of
                  k # _ \<Rightarrow> Inl (TypeError (''missing a required argument: '' @ quote k))
                | [] \<Rightarrow>
                    body f (\<lambda>k. case map_of (kwargs @ defaults f) k of
                                  Some v \<Rightarrow> v
                                | None \<Rightarrow> PyNone)))
      | _ \<Rightarrow> Inl (TypeError ''argument after ** must be a mapping''))"


section \<open>The remote service and the conversation\<close>

record function_call =
  fn_name :: string
  fn_arguments :: string

record tool_call =
  call_id :: string
  call_function :: function_call

text \<open>The message of a completion: its text (which may be \<^verbatim>\<open>None\<close>) and its
  \<^verbatim>\<open>tool_calls\<close> (\<^verbatim>\<open>None\<close> or a list).\<close>

record chat_completion_message =
  content :: "string option"
  tool_calls :: "tool_call list option"

text \<open>\<open>choices\<close> lists \<^verbatim>\<open>response.choices[i].message\<close>.\<close>

record chat_completion =
  choices :: "chat_completion_message list"

text \<open>
  An entry of \<^verbatim>\<open>messages\<close>: the two dictionaries the relay starts with, the response
  message object it appends, and the dictionary with role \<^verbatim>\<open>"tool"\<close> it appends for
  each tool call.
\<close>

datatype message =
    System string
  | User string
  | Assistant chat_completion_message
  | Tool (tool_call_id: string) (result_name: string) (result_content: string)

record request =
  req_model :: string
  req_messages :: "message list"
  req_tools :: "tool_descriptor list option"
  req_tool_choice :: "string option"

text \<open>
  What the relay calls and does not define: the client's
  \<^verbatim>\<open>chat.completions.create\<close>, \<^verbatim>\<open>json.loads\<close>, \<^verbatim>\<open>json.dumps\<close>, \<^verbatim>\<open>eval\<close>,
  \<^verbatim>\<open>str\<close>, \<^verbatim>\<open>str.lower\<close> and \<^verbatim>\<open>str.upper\<close>. The first four may raise.
\<close>

record runtime =
  create :: "request \<Rightarrow> exn + chat_completion"
  json_loads :: "string \<Rightarrow> exn + pyval"
  json_dumps :: "pyval \<Rightarrow> exn + string"
  py_eval :: "string \<Rightarrow> string + pyval"
  py_str :: "pyval \<Rightarrow> string"
  str_lower :: "string \<Rightarrow> string"
  str_upper :: "string \<Rightarrow> string"

text \<open>The module-level \<^verbatim>\<open>available_functions\<close>, with the Python built-ins the
  handlers call taken from the run-time.\<close>

definition available_functions :: "runtime \<Rightarrow> (string \<times> py_function) list" where
  "available_functions env =
     [(''get_weather'',
        \<lparr>params = [''location''], defaults = [(''unit'', PyStr ''celsius'')],
         body = (\<lambda>a. get_weather (str_lower env) (a ''location'') (a ''unit''))\<rparr>),
      (''calculate'',
        \<lparr>params = [''expression''], defaults = [],
         body = (\<lambda>a. calculate (py_eval env) (a ''expression''))\<rparr>),
      (''get_stock_price'',
        \<lparr>params = [''symbol''], defaults = [],
         body = (\<lambda>a. get_stock_price (str_upper env) (a ''symbol''))\<rparr>),
      (''send_email'',
        \<lparr>params = [''to'', ''subject'', ''body''], defaults = [],
         body = (\<lambda>a. send_email (py_str env) (a ''to'') (a ''subject'') (a ''body''))\<rparr>),
      (''search_database'',
        \<lparr>params = [''query''], defaults = [(''table'', PyStr ''users'')],
         body = (\<lambda>a. search_database (a ''query'') (a ''table''))\<rparr>)]"

text \<open>
  The effects of a run, in order: each completion request sent (with the messages it
  carried at that moment) and each handler call made.
\<close>

datatype event =
    Completion request
  | Invoke string pyval

record relay_state =
  messages :: "message list"
  trace :: "event list"

fun completions :: "event list \<Rightarrow> request list" where
  "completions [] = []"
| "completions (Completion r # es) = r # completions es"
| "completions (Invoke _ _ # es) = completions es"

fun invocations :: "event list \<Rightarrow> (string \<times> pyval) list" where
  "invocations [] = []"
| "invocations (Completion _ # es) = invocations es"
| "invocations (Invoke n a # es) = (n, a) # invocations es"

definition append_message :: "message \<Rightarrow> relay_state \<Rightarrow> relay_state" where
  "append_message m st = st\<lparr>messages := messages st @ [m]\<rparr>"

definition log_event :: "event \<Rightarrow> relay_state \<Rightarrow> relay_state" where
  "log_event e st = st\<lparr>trace := trace st @ [e]\<rparr>"

definition chat_completions_create ::
  "runtime \<Rightarrow> request \<Rightarrow> relay_state \<Rightarrow> (exn + chat_completion) \<times> relay_state" where
  "chat_completions_create env req st = (create env req, log_event (Completion req) st)"

text \<open>\<^verbatim>\<open>response.choices[0].message\<close>\<close>

definition first_message :: "chat_completion \<Rightarrow> exn + chat_completion_message" where
  "first_message response =
     (case choices response of
        [] \<Rightarrow> Inl (IndexError ''list index out of range'')
      | m # _ \<Rightarrow> Inr m)"


section \<open>run\_conversation\<close>

text \<open>
  One pass of the loop body (lines 306 to 327). The \<^verbatim>\<open>print\<close> calls are left out;
  with \<open>verbose\<close> they also serialise the arguments and the handler's response, which
  can raise as the serialisation of line 326 does. A failure returns the state reached,
  so that the trace shows what had happened by then.
\<close>

definition process_tool_call ::
  "runtime \<Rightarrow> bool \<Rightarrow> relay_state \<Rightarrow> tool_call \<Rightarrow> (exn + unit) \<times> relay_state" where
  "process_tool_call env verbose st tc =
     (let function_name = fn_name (call_function tc) in
      case json_loads env (fn_arguments (call_function tc)) of
        Inl e \<Rightarrow> (Inl e, st)
      | Inr function_args \<Rightarrow>
          (case (if verbose then json_dumps env function_args else Inr []) of
             Inl e \<Rightarrow> (Inl e, st)
           | Inr _ \<Rightarrow>
               (case map_of (available_functions env) function_name of
                  None \<Rightarrow> (Inl (KeyError function_name), st)
                | Some function_to_call \<Rightarrow>
                    (let st1 = log_event (Invoke function_name function_args) st in
                     case call_kwargs function_to_call function_args of
                       Inl e \<Rightarrow> (Inl e, st1)
                     | Inr function_response \<Rightarrow>
                         (case (if verbose then json_dumps env function_response else Inr []) of
                            Inl e \<Rightarrow> (Inl e, st1)
                          | Inr _ \<Rightarrow>
                              (case json_dumps env function_response of
                                 Inl e \<Rightarrow> (Inl e, st1)
                               | Inr dumped \<Rightarrow>
                                   (Inr (),
                                    append_message
                                      (Tool (call_id tc) function_name dumped) st1)))))))"

text \<open>\<^verbatim>\<open>for tool_call in tool_calls\<close>: the first exception ends the loop.\<close>

fun execute_tool_calls ::
  "runtime \<Rightarrow> bool \<Rightarrow> relay_state \<Rightarrow> tool_call list \<Rightarrow> (exn + unit) \<times> relay_state" where
  "execute_tool_calls env verbose st [] = (Inr (), st)"
| "execute_tool_calls env verbose st (tc # tcs) =
     (case process_tool_call env verbose st tc of
        (Inl e, st') \<Rightarrow> (Inl e, st')
      | (Inr _, st') \<Rightarrow> execute_tool_calls env verbose st' tcs)"

definition system_prompt :: string where
  "system_prompt = ''You are a helpful assistant with access to various tools. Use them to answer user queries accurately.''"

definition initial_messages :: "string \<Rightarrow> message list" where
  "initial_messages user_query = [System system_prompt, User user_query]"

definition first_request :: "string \<Rightarrow> request" where
  "first_request user_query =
     \<lparr>req_model = ''gpt-4o'', req_messages = initial_messages user_query,
      req_tools = Some tools, req_tool_choice = Some ''auto''\<rparr>"

definition second_request :: "message list \<Rightarrow> request" where
  "second_request msgs =
     \<lparr>req_model = ''gpt-4o'', req_messages = msgs, req_tools = None, req_tool_choice = None\<rparr>"

text \<open>\<^verbatim>\<open>if tool_calls:\<close> holds for a list that is not empty; \<^verbatim>\<open>None\<close> and the empty
  list are false.\<close>

definition requested :: "tool_call list option \<Rightarrow> tool_call list" where
  "requested tcs_opt = (case tcs_opt of None \<Rightarrow> [] | Some tcs \<Rightarrow> tcs)"

text \<open>
  The result is the final answer (\<^verbatim>\<open>message.content\<close>, which may be \<^verbatim>\<open>None\<close>) or
  the exception that left the function, with the final state.
\<close>

definition run_conversation ::
  "runtime \<Rightarrow> string \<Rightarrow> bool \<Rightarrow> (exn + string option) \<times> relay_state" where
  "run_conversation env user_query verbose =
     (let st0 = \<lparr>messages = initial_messages user_query, trace = []\<rparr> in
      case chat_completions_create env (first_request user_query) st0 of
        (Inl e, st1) \<Rightarrow> (Inl e, st1)
      | (Inr response, st1) \<Rightarrow>
          (case first_message response of
             Inl e \<Rightarrow> (Inl e, st1)
           | Inr response_message \<Rightarrow>
               (let calls = requested (tool_calls response_message) in
                if calls \<noteq> [] then
                  (let st2 = append_message (Assistant response_message) st1 in
                   case execute_tool_calls env verbose st2 calls of
                     (Inl e, st3) \<Rightarrow> (Inl e, st3)
                   | (Inr _, st3) \<Rightarrow>
                       (case chat_completions_create env (second_request (messages st3)) st3 of
                          (Inl e, st4) \<Rightarrow> (Inl e, st4)
                        | (Inr second_response, st4) \<Rightarrow>
                            (case first_message second_response of
                               Inl e \<Rightarrow> (Inl e, st4)
                             | Inr second_message \<Rightarrow> (Inr (content second_message), st4))))
                else (Inr (content response_message), st1))))"


section \<open>PersonProfile (2\_pydantic\_ai\_validation.py)\<close>

record PersonProfile =
  name :: string
  age :: int
  occupation :: string

text \<open>One entry of a \<^verbatim>\<open>ValidationError\<close>: the field and the kind of the error.\<close>

record error_detail =
  loc :: string
  error_type :: string

text \<open>
  \<^verbatim>\<open>name: str\<close> with the validator \<open>name_must_not_be_empty\<close>, which runs on a value
  that passed the string check: it raises \<^verbatim>\<open>ValueError\<close> when \<^verbatim>\<open>v.strip()\<close> is
  empty and returns the stripped name otherwise.
\<close>

definition name_must_not_be_empty :: "string \<Rightarrow> error_detail + string" where
  "name_must_not_be_empty v =
     (if strip v = [] then Inl \<lparr>loc = ''name'', error_type = ''value_error''\<rparr>
      else Inr (strip v))"

definition validate_str :: "string \<Rightarrow> pyval option \<Rightarrow> error_detail + string" where
  "validate_str field v =
     (case v of
        None \<Rightarrow> Inl \<lparr>loc = field, error_type = ''missing''\<rparr>
      | Some (PyStr s) \<Rightarrow> Inr s
      | Some _ \<Rightarrow> Inl \<lparr>loc = field, error_type = ''string_type''\<rparr>)"

text \<open>
  \<^verbatim>\<open>age: int = Field(ge=0, le=150)\<close>. The library first converts the input to an
  integer and then checks the two bounds. An integer is taken as it is; what the
  library makes of any other value (a numeric string, a float, a boolean) is the
  parameter \<open>lax_int\<close>: the integer, or the kind of the error.
\<close>

definition to_int :: "(pyval \<Rightarrow> string + int) \<Rightarrow> pyval \<Rightarrow> error_detail + int" where
  "to_int lax_int v =
     (case v of
        PyInt n \<Rightarrow> Inr n
      | _ \<Rightarrow>
          (case lax_int v of
             Inr n \<Rightarrow> Inr n
           | Inl kind \<Rightarrow> Inl \<lparr>loc = ''age'', error_type = kind\<rparr>))"

definition validate_age :: "(pyval \<Rightarrow> string + int) \<Rightarrow> pyval option \<Rightarrow> error_detail + int" where
  "validate_age lax_int v =
     (case v of
        None \<Rightarrow> Inl \<lparr>loc = ''age'', error_type = ''missing''\<rparr>
      | Some x \<Rightarrow>
          (case to_int lax_int x of
             Inl e \<Rightarrow> Inl e
           | Inr n \<Rightarrow>
               (if n > 150 then Inl \<lparr>loc = ''age'', error_type = ''less_than_equal''\<rparr>
                else if n < 0 then Inl \<lparr>loc = ''age'', error_type = ''greater_than_equal''\<rparr>
                else Inr n)))"

fun errors_of :: "(error_detail + 'a) \<Rightarrow> error_detail list" where
  "errors_of (Inl e) = [e]"
| "errors_of (Inr _) = []"

text \<open>
  \<^verbatim>\<open>PersonProfile.model_validate(obj)\<close>: every field is validated, in the order of
  declaration, and the errors of all fields are reported together; keys that are not
  fields are ignored.
\<close>

definition model_validate ::
  "(pyval \<Rightarrow> string + int) \<Rightarrow> pyval \<Rightarrow> error_detail list + PersonProfile" where
  "model_validate lax_int obj =
     (case obj of
        PyDict kvs \<Rightarrow>
          (let n = (case validate_str ''name'' (map_of kvs ''name'') of
                      Inl e \<Rightarrow> Inl e
                    | Inr s \<Rightarrow> name_must_not_be_empty s);
               a = validate_age lax_int (map_of kvs ''age'');
               j = validate_str ''occupation'' (map_of kvs ''occupation'')
           in case (n, a, j) of
                (Inr n', Inr a', Inr j') \<Rightarrow> Inr \<lparr>name = n', age = a', occupation = j'\<rparr>
              | _ \<Rightarrow> Inl (errors_of n @ errors_of a @ errors_of j))
      | _ \<Rightarrow> Inl [\<lparr>loc = [], error_type = ''model_type''\<rparr>])"

definition invalid_data :: pyval where
  "invalid_data =
     PyDict [(''name'', PyStr ''   ''), (''age'', PyInt 200), (''occupation'', PyStr ''Developer'')]"

text \<open>
  \<open>example_with_validation_error\<close> validates \<open>invalid_data\<close> inside
  \<^verbatim>\<open>try ... except Exception\<close> and prints what it caught. It takes the requests the
  script has sent so far and returns them with the errors it caught (\<open>None\<close> when the
  validation passed); it calls the client nowhere.
\<close>

definition example_with_validation_error ::
  "(pyval \<Rightarrow> string + int) \<Rightarrow> request list \<Rightarrow> error_detail list option \<times> request list" where
  "example_with_validation_error lax_int sent =
     (case model_validate lax_int invalid_data of
        Inl errors \<Rightarrow> (Some errors, sent)
      | Inr _ \<Rightarrow> (None, sent))"


section \<open>A concrete run-time for the examples\<close>

text \<open>
  The examples below run the relay against fixed answers of the remote service and
  against tables that agree with \<^verbatim>\<open>json.loads\<close>, \<^verbatim>\<open>json.dumps\<close> and \<^verbatim>\<open>eval\<close> on
  the few inputs the examples meet; all strings of the examples are ASCII.
\<close>

definition demo_loads :: "string \<Rightarrow> exn + pyval" where
  "demo_loads s =
     (if s = ''{\"location\": \"Paris\"}'' then Inr (PyDict [(''location'', PyStr ''Paris'')])
      else if s = ''{\"symbol\": \"MSFT\"}'' then Inr (PyDict [(''symbol'', PyStr ''MSFT'')])
      else if s = ''{\"symbol\": \"AAPL\"}'' then Inr (PyDict [(''symbol'', PyStr ''AAPL'')])
      else if s = ''{\"expression\": \"1/0\"}'' then Inr (PyDict [(''expression'', PyStr ''1/0'')])
      else if s = ''{\"location\": 5}'' then Inr (PyDict [(''location'', PyInt 5)])
      else if s = ''{}'' then Inr (PyDict [])
      else Inl (JSONDecodeError ''Expecting value''))"

definition demo_dumps :: "pyval \<Rightarrow> exn + string" where
  "demo_dumps v =
     (if v = PyDict [(''location'', PyStr ''Paris''), (''temperature'', PyInt 17),
                     (''unit'', PyStr ''celsius''), (''condition'', PyStr ''Partly Cloudy''),
                     (''humidity'', PyInt 55)]
      then Inr ''{\"location\": \"Paris\", \"temperature\": 17, \"unit\": \"celsius\", \"condition\": \"Partly Cloudy\", \"humidity\": 55}''
      else if v = PyDict [(''symbol'', PyStr ''MSFT''), (''price'', PyFloat (4153 / 10)),
                          (''change'', PyFloat (54 / 10)), (''change_percent'', PyFloat (132 / 100))]
      then Inr ''{\"symbol\": \"MSFT\", \"price\": 415.3, \"change\": 5.4, \"change_percent\": 1.32}''
      else if v = PyDict [(''symbol'', PyStr ''AAPL''), (''price'', PyFloat (1785 / 10)),
                          (''change'', PyFloat (23 / 10)), (''change_percent'', PyFloat (131 / 100))]
      then Inr ''{\"symbol\": \"AAPL\", \"price\": 178.5, \"change\": 2.3, \"change_percent\": 1.31}''
      else if v = PyDict [(''error'', PyStr ''division by zero'')]
      then Inr ''{\"error\": \"division by zero\"}''
      else if v = PyDict [(''location'', PyStr ''Paris'')] then Inr ''{\"location\": \"Paris\"}''
      else if v = PyDict [(''symbol'', PyStr ''MSFT'')] then Inr ''{\"symbol\": \"MSFT\"}''
      else if v = PyDict [(''symbol'', PyStr ''AAPL'')] then Inr ''{\"symbol\": \"AAPL\"}''
      else if v = PyDict [(''expression'', PyStr ''1/0'')] then Inr ''{\"expression\": \"1/0\"}''
      else if v = PyDict [(''location'', PyInt 5)] then Inr ''{\"location\": 5}''
      else if v = PyDict [] then Inr ''{}''
      else Inl (TypeError ''Object is not JSON serializable''))"

definition demo_eval :: "string \<Rightarrow> string + pyval" where
  "demo_eval s =
     (if s = ''1/0'' then Inl ''division by zero''
      else if s = ''2 + 2'' then Inr (PyInt 4)
      else Inl ''invalid syntax'')"

definition demo_call :: "string \<Rightarrow> string \<Rightarrow> string \<Rightarrow> tool_call" where
  "demo_call i n a = \<lparr>call_id = i, call_function = \<lparr>fn_name = n, fn_arguments = a\<rparr>\<rparr>"

text \<open>The first completion of each example query; every second completion is a text
  that also asks for a tool.\<close>

definition demo_first :: "string \<Rightarrow> chat_completion_message" where
  "demo_first q =
     (if q = ''Paris and Microsoft'' then
        \<lparr>content = None,
         tool_calls = Some [demo_call ''call_1'' ''get_weather'' ''{\"location\": \"Paris\"}'',
                            demo_call ''call_2'' ''get_stock_price'' ''{\"symbol\": \"MSFT\"}'']\<rparr>
      else if q = ''What time is it?'' then
        \<lparr>content = None, tool_calls = Some [demo_call ''call_1'' ''get_time'' ''{}'']\<rparr>
      else if q = ''Weather in 5'' then
        \<lparr>content = None,
         tool_calls = Some [demo_call ''call_1'' ''get_weather'' ''{\"location\": 5}'']\<rparr>
      else if q = ''What is 1/0?'' then
        \<lparr>content = None,
         tool_calls = Some [demo_call ''call_1'' ''calculate'' ''{\"expression\": \"1/0\"}'']\<rparr>
      else \<lparr>content = Some ''Hello!'', tool_calls = None\<rparr>)"

definition demo_second :: chat_completion_message where
  "demo_second =
     \<lparr>content = Some ''Done.'',
      tool_calls = Some [demo_call ''call_9'' ''get_weather'' ''{\"location\": \"Paris\"}'']\<rparr>"

definition demo_create :: "request \<Rightarrow> exn + chat_completion" where
  "demo_create req =
     (if req_tools req = None then Inr \<lparr>choices = [demo_second]\<rparr>
      else (case req_messages req of
              [System _, User q] \<Rightarrow> Inr \<lparr>choices = [demo_first q]\<rparr>
            | _ \<Rightarrow> Inl (APIError ''bad request'')))"

definition demo :: runtime where
  "demo = \<lparr>create = demo_create, json_loads = demo_loads, json_dumps = demo_dumps,
           py_eval = demo_eval, py_str = (\<lambda>_. ''None''),
           str_lower = ascii_lower, str_upper = ascii_upper\<rparr>"

definition demo_results :: "message list" where
  "demo_results =
     [Tool ''call_1'' ''get_weather''
        ''{\"location\": \"Paris\", \"temperature\": 17, \"unit\": \"celsius\", \"condition\": \"Partly Cloudy\", \"humidity\": 55}'',
      Tool ''call_2'' ''get_stock_price''
        ''{\"symbol\": \"MSFT\", \"price\": 415.3, \"change\": 5.4, \"change_percent\": 1.32}'']"


section \<open>Vocabulary of the properties\<close>

text \<open>A message answers a tool call when it is a tool message that carries the call's
  identifier and the name of the called function.\<close>

definition answers :: "tool_call \<Rightarrow> message \<Rightarrow> bool" where
  "answers tc m =
     (case m of
        Tool i n c \<Rightarrow> i = call_id tc \<and> n = fn_name (call_function tc)
      | _ \<Rightarrow> False)"

text \<open>The two table lookups with their defaults, as functions of the key:
  \<^verbatim>\<open>weather_data.get(key, {...})\<close> and \<^verbatim>\<open>stock_data.get(key, {...})\<close>.\<close>

definition weather_at :: "string \<Rightarrow> weather" where
  "weather_at key =
     (case map_of weather_data key of
        Some d \<Rightarrow> d
      | None \<Rightarrow> \<lparr>temp = 20, condition = ''Unknown'', humidity = 50\<rparr>)"

definition stock_at :: "string \<Rightarrow> stock" where
  "stock_at key =
     (case map_of stock_data key of
        Some d \<Rightarrow> d
      | None \<Rightarrow> \<lparr>price = PyInt 0, change = PyInt 0, change_percent = PyInt 0\<rparr>)"

fun is_tool :: "message \<Rightarrow> bool" where
  "is_tool (Tool _ _ _) = True"
| "is_tool _ = False"

text \<open>What lines 315 and 316 compute for a function name and its arguments:
  \<^verbatim>\<open>available_functions[function_name](**function_args)\<close>.\<close>

definition handler_result :: "runtime \<Rightarrow> string \<Rightarrow> pyval \<Rightarrow> exn + pyval" where
  "handler_result env function_name function_args =
     (case map_of (available_functions env) function_name of
        None \<Rightarrow> Inl (KeyError function_name)
      | Some function_to_call \<Rightarrow> call_kwargs function_to_call function_args)"

definition aapl_record :: pyval where
  "aapl_record =
     PyDict [(''symbol'', PyStr ''AAPL''), (''price'', PyFloat (1785 / 10)),
             (''change'', PyFloat (23 / 10)), (''change_percent'', PyFloat (131 / 100))]"


section \<open>Properties of the relay\<close>

subsection \<open>The loop over the tool calls\<close>

lemma answers_Tool: "answers tc (Tool i n c) \<longleftrightarrow> i = call_id tc \<and> n = fn_name (call_function tc)"
  by (simp add: answers_def)

lemma completions_append: "completions (xs @ ys) = completions xs @ completions ys"
  by (induction xs rule: completions.induct) simp_all

lemma invocations_append: "invocations (xs @ ys) = invocations xs @ invocations ys"
  by (induction xs rule: invocations.induct) simp_all

lemma process_tool_call_ok:
  assumes "process_tool_call env verbose st tc = (Inr u, st')"
  shows "\<exists>c. messages st' = messages st @ [Tool (call_id tc) (fn_name (call_function tc)) c]"
    and "completions (trace st') = completions (trace st)"
  using assms
  by (auto simp: process_tool_call_def Let_def append_message_def log_event_def completions_append
      split: sum.splits option.splits if_splits)

lemma process_tool_call_fail:
  assumes "process_tool_call env verbose st tc = (Inl e, st')"
  shows "messages st' = messages st"
    and "completions (trace st') = completions (trace st)"
  using assms
  by (auto simp: process_tool_call_def Let_def append_message_def log_event_def completions_append
      split: sum.splits option.splits if_splits)

lemma execute_tool_calls_ok:
  "execute_tool_calls env verbose st tcs = (Inr u, st') \<Longrightarrow>
     \<exists>rs. messages st' = messages st @ rs \<and> list_all2 answers tcs rs \<and>
          completions (trace st') = completions (trace st)"
proof (induction tcs arbitrary: st)
  case Nil
  then show ?case by simp
next
  case (Cons tc tcs)
  obtain r st1 where p: "process_tool_call env verbose st tc = (r, st1)"
    by (cases "process_tool_call env verbose st tc")
  with Cons.prems obtain u1 where r: "r = Inr u1" and rest: "execute_tool_calls env verbose st1 tcs = (Inr u, st')"
    by (cases r) auto
  from process_tool_call_ok[OF p[unfolded r]] obtain c where
    m1: "messages st1 = messages st @ [Tool (call_id tc) (fn_name (call_function tc)) c]"
    and c1: "completions (trace st1) = completions (trace st)"
    by blast
  from Cons.IH[OF rest] obtain rs where
    "messages st' = messages st1 @ rs" "list_all2 answers tcs rs"
    "completions (trace st') = completions (trace st1)"
    by blast
  with m1 c1 show ?case
    by (intro exI[of _ "Tool (call_id tc) (fn_name (call_function tc)) c # rs"])
       (simp add: answers_Tool)
qed

lemma execute_tool_calls_fail:
  "execute_tool_calls env verbose st tcs = (Inl e, st') \<Longrightarrow>
     prefix (messages st) (messages st') \<and> completions (trace st') = completions (trace st)"
proof (induction tcs arbitrary: st)
  case Nil
  then show ?case by simp
next
  case (Cons tc tcs)
  obtain r st1 where p: "process_tool_call env verbose st tc = (r, st1)"
    by (cases "process_tool_call env verbose st tc")
  show ?case
  proof (cases r)
    case (Inl e1)
    with p Cons.prems have "st' = st1" by simp
    with process_tool_call_fail[OF p[unfolded Inl]] show ?thesis by simp
  next
    case (Inr u1)
    with p Cons.prems have rest: "execute_tool_calls env verbose st1 tcs = (Inl e, st')" by simp
    from process_tool_call_ok[OF p[unfolded Inr]] Cons.IH[OF rest] show ?thesis
      by (auto simp: prefix_def)
  qed
qed

lemma execute_tool_calls_completions:
  "completions (trace (snd (execute_tool_calls env verbose st tcs))) = completions (trace st)"
proof (cases "execute_tool_calls env verbose st tcs")
  case (Pair r st')
  then show ?thesis
    using execute_tool_calls_ok[of env verbose st tcs _ st'] execute_tool_calls_fail[of env verbose st tcs _ st']
    by (cases r) auto
qed

lemma run_conversation_completions:
  "completions (trace (snd (run_conversation env q verbose))) = [first_request q] \<or>
   (\<exists>msgs. completions (trace (snd (run_conversation env q verbose))) =
             [first_request q, second_request msgs])"
proof (cases "create env (first_request q)")
  case (Inl e)
  then show ?thesis
    by (simp add: run_conversation_def chat_completions_create_def Let_def log_event_def)
next
  case response: (Inr response)
  show ?thesis
  proof (cases "first_message response")
    case (Inl e)
    with response show ?thesis
      by (simp add: run_conversation_def chat_completions_create_def Let_def log_event_def)
  next
    case m: (Inr m)
    show ?thesis
    proof (cases "requested (tool_calls m) = []")
      case True
      with response m show ?thesis
        by (simp add: run_conversation_def chat_completions_create_def Let_def log_event_def)
    next
      case False
      let ?st2 = "append_message (Assistant m)
                    (log_event (Completion (first_request q))
                       \<lparr>messages = initial_messages q, trace = []\<rparr>)"
      obtain r3 st3 where ex: "execute_tool_calls env verbose ?st2 (requested (tool_calls m)) = (r3, st3)"
        by (cases "execute_tool_calls env verbose ?st2 (requested (tool_calls m))")
      from execute_tool_calls_completions[of env verbose ?st2 "requested (tool_calls m)"] ex
      have c3: "completions (trace st3) = [first_request q]"
        by (simp add: append_message_def log_event_def)
      show ?thesis
      proof (cases r3)
        case (Inl e)
        with response m False ex c3 show ?thesis
          by (simp add: run_conversation_def chat_completions_create_def Let_def)
      next
        case (Inr u)
        with response m False ex c3 show ?thesis
          by (auto simp: run_conversation_def chat_completions_create_def Let_def log_event_def
              completions_append split: sum.splits)
      qed
    qed
  qed
qed

subsection \<open>Runs of the example run-time\<close>

lemma demo_run_paris:
  "run_conversation demo ''Paris and Microsoft'' False =
     (Inr (Some ''Done.''),
      \<lparr>messages = initial_messages ''Paris and Microsoft'' @
          Assistant (demo_first ''Paris and Microsoft'') # demo_results,
       trace =
          [Completion (first_request ''Paris and Microsoft''),
           Invoke ''get_weather'' (PyDict [(''location'', PyStr ''Paris'')]),
           Invoke ''get_stock_price'' (PyDict [(''symbol'', PyStr ''MSFT'')]),
           Completion (second_request (initial_messages ''Paris and Microsoft'' @
              Assistant (demo_first ''Paris and Microsoft'') # demo_results))]\<rparr>)"
  by code_simp

lemma demo_create_first:
  "create demo (first_request q) = Inr \<lparr>choices = [demo_first q]\<rparr>"
  by (simp add: demo_def demo_create_def first_request_def initial_messages_def)

subsection \<open>Tool results and the second request\<close>

text \<open>
  C1. Let the first completion hold \<open>N \<ge> 1\<close> tool calls \<open>tcs\<close>. Then a run either
  fails while it works through them, having sent the first request only, or it sends
  exactly one more request, and that request carries the initial messages, the
  assistant message and after them exactly \<open>N\<close> tool messages, the \<open>k\<close>-th of which
  has the identifier and the function name of the \<open>k\<close>-th tool call. So whenever the
  second request is issued, the \<open>N\<close> results stand in the conversation, in the order
  of the calls.
\<close>

theorem tool_results_before_second_request:
  assumes "create env (first_request q) = Inr response"
    and "choices response = m # ms"
    and "tool_calls m = Some tcs"
    and "tcs \<noteq> []"
  shows "case run_conversation env q verbose of
           (r, st) \<Rightarrow>
             (\<exists>e. r = Inl e \<and> completions (trace st) = [first_request q]) \<or>
             (\<exists>rs. completions (trace st) =
                      [first_request q, second_request (initial_messages q @ Assistant m # rs)] \<and>
                   messages st = initial_messages q @ Assistant m # rs \<and>
                   length rs = length tcs \<and> list_all2 answers tcs rs)"
proof -
  let ?st2 = "append_message (Assistant m) (log_event (Completion (first_request q)) \<lparr>messages = initial_messages q, trace = []\<rparr>)"
  obtain r3 st3 where ex: "execute_tool_calls env verbose ?st2 tcs = (r3, st3)"
    by (cases "execute_tool_calls env verbose ?st2 tcs")
  show ?thesis
  proof (cases r3)
    case (Inl e)
    from execute_tool_calls_fail[OF ex[unfolded Inl]] have "completions (trace st3) = [first_request q]"
      by (simp add: append_message_def log_event_def)
    with assms ex Inl show ?thesis
      by (simp add: run_conversation_def chat_completions_create_def first_message_def requested_def Let_def)
  next
    case (Inr u)
    from execute_tool_calls_ok[OF ex[unfolded Inr]] obtain rs where
      rs: "messages st3 = initial_messages q @ Assistant m # rs" "list_all2 answers tcs rs"
          "completions (trace st3) = [first_request q]"
      by (auto simp: append_message_def log_event_def)
    from rs(2) have "length rs = length tcs" by (simp add: list_all2_lengthD)
    with assms ex Inr rs show ?thesis
      by (auto simp: run_conversation_def chat_completions_create_def first_message_def requested_def
          Let_def log_event_def completions_append split: sum.splits list.splits)
  qed
qed

theorem tool_results_before_second_request_witness:
  "create demo (first_request ''Paris and Microsoft'') =
     Inr \<lparr>choices = [demo_first ''Paris and Microsoft'']\<rparr> \<and>
   tool_calls (demo_first ''Paris and Microsoft'') =
     Some [demo_call ''call_1'' ''get_weather'' ''{\"location\": \"Paris\"}'',
           demo_call ''call_2'' ''get_stock_price'' ''{\"symbol\": \"MSFT\"}''] \<and>
   (case run_conversation demo ''Paris and Microsoft'' False of
      (r, st) \<Rightarrow>
        (\<exists>e. r = Inl e \<and> completions (trace st) = [first_request ''Paris and Microsoft'']) \<or>
        (\<exists>rs. completions (trace st) =
                 [first_request ''Paris and Microsoft'',
                  second_request (initial_messages ''Paris and Microsoft'' @
                    Assistant (demo_first ''Paris and Microsoft'') # rs)] \<and>
              messages st = initial_messages ''Paris and Microsoft'' @
                    Assistant (demo_first ''Paris and Microsoft'') # rs \<and>
              length rs = length [demo_call ''call_1'' ''get_weather'' ''{\"location\": \"Paris\"}'',
           demo_call ''call_2'' ''get_stock_price'' ''{\"symbol\": \"MSFT\"}''] \<and>
              list_all2 answers [demo_call ''call_1'' ''get_weather'' ''{\"location\": \"Paris\"}'',
           demo_call ''call_2'' ''get_stock_price'' ''{\"symbol\": \"MSFT\"}''] rs)) \<and>
   messages (snd (run_conversation demo ''Paris and Microsoft'' False)) =
     initial_messages ''Paris and Microsoft'' @
       Assistant (demo_first ''Paris and Microsoft'') # demo_results"
proof -
  let ?q = "''Paris and Microsoft''"
  let ?tcs = "[demo_call ''call_1'' ''get_weather'' ''{\"location\": \"Paris\"}'',
           demo_call ''call_2'' ''get_stock_price'' ''{\"symbol\": \"MSFT\"}'']"
  have h1: "create demo (first_request ?q) = Inr \<lparr>choices = [demo_first ?q]\<rparr>"
    by (rule demo_create_first)
  have h2: "choices \<lparr>choices = [demo_first ?q]\<rparr> = demo_first ?q # []"
    by simp
  have h3: "tool_calls (demo_first ?q) = Some ?tcs"
    by (simp add: demo_first_def)
  have h4: "?tcs \<noteq> []"
    by simp
  from tool_results_before_second_request[OF h1 h2 h3 h4, of False] h1 h3 show ?thesis
    by (simp add: demo_run_paris)
qed


subsection \<open>A first completion without tool calls\<close>

lemma run_conversation_no_tools:
  assumes "create env (first_request q) = Inr response"
    and "choices response = m # ms"
    and "tool_calls m = None \<or> tool_calls m = Some []"
  shows "run_conversation env q verbose =
           (Inr (content m), \<lparr>messages = initial_messages q, trace = [Completion (first_request q)]\<rparr>)"
  using assms
  by (auto simp: run_conversation_def chat_completions_create_def first_message_def requested_def
      Let_def log_event_def)

lemma demo_run_hello:
  "run_conversation demo ''Hello'' True =
     (Inr (Some ''Hello!''),
      \<lparr>messages = initial_messages ''Hello'', trace = [Completion (first_request ''Hello'')]\<rparr>)"
  by code_simp

lemma demo_run_time:
  "fst (run_conversation demo ''What time is it?'' True) = Inl (KeyError ''get_time'')"
  by code_simp

text \<open>
  C2. When the first completion holds no tool call (\<^verbatim>\<open>tool_calls\<close> is \<^verbatim>\<open>None\<close> or
  the empty list), \<open>run_conversation\<close> returns the content of that completion as it
  is, the first request is the only request it sent, it called no handler, and the
  conversation is still the two initial messages.
\<close>

theorem no_tool_calls_returns_first_content:
  assumes "create env (first_request q) = Inr response"
    and "choices response = m # ms"
    and "tool_calls m = None \<or> tool_calls m = Some []"
  shows "case run_conversation env q verbose of
           (r, st) \<Rightarrow>
             r = Inr (content m) \<and>
             completions (trace st) = [first_request q] \<and>
             invocations (trace st) = [] \<and>
             messages st = initial_messages q"
  by (simp add: run_conversation_no_tools[OF assms])

theorem no_tool_calls_returns_first_content_witness:
  "create demo (first_request ''Hello'') = Inr \<lparr>choices = [demo_first ''Hello'']\<rparr> \<and>
   tool_calls (demo_first ''Hello'') = None \<and>
   content (demo_first ''Hello'') = Some ''Hello!'' \<and>
   (case run_conversation demo ''Hello'' True of
      (r, st) \<Rightarrow>
        r = Inr (content (demo_first ''Hello'')) \<and>
        completions (trace st) = [first_request ''Hello''] \<and>
        invocations (trace st) = [] \<and>
        messages st = initial_messages ''Hello'')"
proof -
  have h1: "create demo (first_request ''Hello'') = Inr \<lparr>choices = [demo_first ''Hello'']\<rparr>"
    by (rule demo_create_first)
  have h2: "choices \<lparr>choices = [demo_first ''Hello'']\<rparr> = demo_first ''Hello'' # []"
    by simp
  have h3: "tool_calls (demo_first ''Hello'') = None"
    by (simp add: demo_first_def)
  then have h3': "tool_calls (demo_first ''Hello'') = None \<or> tool_calls (demo_first ''Hello'') = Some []"
    by simp
  have h4: "content (demo_first ''Hello'') = Some ''Hello!''"
    by (simp add: demo_first_def)
  from no_tool_calls_returns_first_content[OF h1 h2 h3', of True] h1 h3 h4 show ?thesis
    by simp
qed

subsection \<open>A tool that has no handler\<close>

lemma handler_names:
  "fst ` set (available_functions env) =
     {''get_weather'', ''calculate'', ''get_stock_price'', ''send_email'', ''search_database''}"
  by (auto simp: available_functions_def)

lemma process_tool_call_unknown:
  assumes "map_of (available_functions env) (fn_name (call_function tc)) = None"
  shows "\<exists>e. process_tool_call env verbose st tc = (Inl e, st)"
  using assms
  by (auto simp: process_tool_call_def Let_def split: sum.splits)

lemma execute_tool_calls_unknown:
  assumes "tc \<in> set tcs"
    and "map_of (available_functions env) (fn_name (call_function tc)) = None"
  shows "\<exists>e st'. execute_tool_calls env verbose st tcs = (Inl e, st')"
  using assms(1)
proof (induction tcs arbitrary: st)
  case Nil
  then show ?case by simp
next
  case (Cons x xs)
  obtain r st1 where p: "process_tool_call env verbose st x = (r, st1)"
    by (cases "process_tool_call env verbose st x")
  show ?case
  proof (cases r)
    case (Inl e)
    with p show ?thesis by simp
  next
    case (Inr u)
    with p process_tool_call_unknown[OF assms(2), of verbose st] have "x \<noteq> tc" by auto
    with Cons.prems have "tc \<in> set xs" by simp
    from Cons.IH[OF this, of st1] p Inr show ?thesis by simp
  qed
qed

text \<open>
  C3. When some tool call of the first completion names a function that is not a key
  of \<open>available_functions\<close>, the run ends with an exception and the first request
  is the only request it sent. (The exception is the \<^verbatim>\<open>KeyError\<close> of the lookup,
  unless an earlier step of the loop failed first.)
\<close>

theorem unknown_tool_is_fatal:
  assumes "create env (first_request q) = Inr response"
    and "choices response = m # ms"
    and "tool_calls m = Some tcs"
    and "tc \<in> set tcs"
    and "fn_name (call_function tc) \<notin> fst ` set (available_functions env)"
  shows "case run_conversation env q verbose of
           (r, st) \<Rightarrow> (\<exists>e. r = Inl e) \<and> completions (trace st) = [first_request q]"
proof -
  let ?st2 = "append_message (Assistant m) (log_event (Completion (first_request q)) \<lparr>messages = initial_messages q, trace = []\<rparr>)"
  from assms(5) have "map_of (available_functions env) (fn_name (call_function tc)) = None"
    by (simp add: map_of_eq_None_iff)
  from execute_tool_calls_unknown[OF assms(4) this] obtain e st3 where
    ex: "execute_tool_calls env verbose ?st2 tcs = (Inl e, st3)"
    by blast
  from execute_tool_calls_fail[OF ex] have "completions (trace st3) = [first_request q]"
    by (simp add: append_message_def log_event_def)
  moreover from assms(4) have "tcs \<noteq> []" by auto
  ultimately show ?thesis
    using assms(1-3) ex
    by (simp add: run_conversation_def chat_completions_create_def first_message_def requested_def Let_def)
qed

theorem unknown_tool_is_fatal_witness:
  "create demo (first_request ''What time is it?'') =
     Inr \<lparr>choices = [demo_first ''What time is it?'']\<rparr> \<and>
   tool_calls (demo_first ''What time is it?'') = Some [demo_call ''call_1'' ''get_time'' ''{}''] \<and>
   fn_name (call_function (demo_call ''call_1'' ''get_time'' ''{}''))
     \<notin> fst ` set (available_functions demo) \<and>
   (case run_conversation demo ''What time is it?'' True of
      (r, st) \<Rightarrow> (\<exists>e. r = Inl e) \<and> completions (trace st) = [first_request ''What time is it?'']) \<and>
   fst (run_conversation demo ''What time is it?'' True) = Inl (KeyError ''get_time'')"
proof -
  let ?q = "''What time is it?''"
  let ?tc = "demo_call ''call_1'' ''get_time'' ''{}''"
  have h1: "create demo (first_request ?q) = Inr \<lparr>choices = [demo_first ?q]\<rparr>"
    by (rule demo_create_first)
  have h2: "choices \<lparr>choices = [demo_first ?q]\<rparr> = demo_first ?q # []"
    by simp
  have h3: "tool_calls (demo_first ?q) = Some [?tc]"
    by (simp add: demo_first_def)
  have h4: "?tc \<in> set [?tc]"
    by simp
  have h5: "fn_name (call_function ?tc) \<notin> fst ` set (available_functions demo)"
    by (simp add: handler_names demo_call_def)
  from unknown_tool_is_fatal[OF h1 h2 h3 h4 h5, of True] h1 h3 h5 demo_run_time show ?thesis
    by simp
qed

subsection \<open>At most two requests\<close>

text \<open>
  C4. A run sends at most two completion requests, whatever the remote service
  answers. The second completion is read for its content only: in \<open>demo_run_paris\<close> it
  asks for a tool (\<open>demo_second\<close>), and the trace ends with the second request.
\<close>

theorem at_most_two_completion_requests:
  "length (completions (trace (snd (run_conversation env q verbose)))) \<le> 2"
  using run_conversation_completions[of env q verbose] by auto


subsection \<open>The conversation only grows\<close>

lemma process_tool_call_prefix:
  "prefix (messages st) (messages (snd (process_tool_call env verbose st tc)))"
proof (cases "process_tool_call env verbose st tc")
  case (Pair r st')
  then show ?thesis
    using process_tool_call_ok(1)[of env verbose st tc _ st']
      process_tool_call_fail(1)[of env verbose st tc _ st']
    by (cases r) (auto simp: prefix_def)
qed

lemma execute_tool_calls_prefix:
  "prefix (messages st) (messages (snd (execute_tool_calls env verbose st tcs)))"
proof (cases "execute_tool_calls env verbose st tcs")
  case (Pair r st')
  then show ?thesis
    using execute_tool_calls_ok[of env verbose st tcs _ st']
      execute_tool_calls_fail[of env verbose st tcs _ st']
    by (cases r) (auto simp: prefix_def)
qed

lemma run_conversation_requests:
  "list_all (\<lambda>r. prefix (initial_messages q) (req_messages r) \<and>
                  prefix (req_messages r) (messages (snd (run_conversation env q verbose))))
     (completions (trace (snd (run_conversation env q verbose))))"
proof (cases "create env (first_request q)")
  case (Inl e)
  then show ?thesis
    by (simp add: run_conversation_def chat_completions_create_def Let_def log_event_def
        first_request_def)
next
  case response: (Inr response)
  show ?thesis
  proof (cases "first_message response")
    case (Inl e)
    with response show ?thesis
      by (simp add: run_conversation_def chat_completions_create_def Let_def log_event_def
          first_request_def)
  next
    case m: (Inr m)
    show ?thesis
    proof (cases "requested (tool_calls m) = []")
      case True
      with response m show ?thesis
        by (simp add: run_conversation_def chat_completions_create_def Let_def log_event_def
            first_request_def)
    next
      case False
      let ?st2 = "append_message (Assistant m)
                    (log_event (Completion (first_request q))
                       \<lparr>messages = initial_messages q, trace = []\<rparr>)"
      obtain r3 st3 where ex: "execute_tool_calls env verbose ?st2 (requested (tool_calls m)) = (r3, st3)"
        by (cases "execute_tool_calls env verbose ?st2 (requested (tool_calls m))")
      from execute_tool_calls_completions[of env verbose ?st2 "requested (tool_calls m)"] ex
      have c3: "completions (trace st3) = [first_request q]"
        by (simp add: append_message_def log_event_def)
      from execute_tool_calls_prefix[of ?st2 env verbose "requested (tool_calls m)"] ex
      have "prefix (initial_messages q @ [Assistant m]) (messages st3)"
        by (simp add: append_message_def log_event_def)
      then have p3: "prefix (initial_messages q) (messages st3)"
        using append_prefixD by blast
      show ?thesis
      proof (cases r3)
        case (Inl e)
        with response m False ex c3 p3 show ?thesis
          by (simp add: run_conversation_def chat_completions_create_def Let_def first_request_def)
      next
        case (Inr u)
        with response m False ex c3 p3 show ?thesis
          by (auto simp: run_conversation_def chat_completions_create_def Let_def log_event_def
              completions_append first_request_def second_request_def split: sum.splits)
      qed
    qed
  qed
qed

lemma run_conversation_prefix:
  "prefix (initial_messages q) (messages (snd (run_conversation env q verbose)))"
proof -
  from run_conversation_completions[of env q verbose]
  obtain rs where "completions (trace (snd (run_conversation env q verbose))) = first_request q # rs"
    by auto
  with run_conversation_requests[of q env verbose] show ?thesis
    by (simp add: first_request_def)
qed

text \<open>
  C8. The list \<open>messages\<close> changes by appending only. Appending a message adds it
  at the end and recording an event leaves the list alone; the list before one pass of
  the loop is a prefix of the list after it, and so for the whole loop; the two initial
  messages are a prefix of the final list; and the messages each request carried lie
  between the two: they extend the initial messages and are a prefix of the final list.
\<close>

theorem messages_only_appended:
  "messages (append_message m st) = messages st @ [m] \<and>
   messages (log_event e st) = messages st \<and>
   prefix (messages st) (messages (snd (process_tool_call env verbose st tc))) \<and>
   prefix (messages st) (messages (snd (execute_tool_calls env verbose st tcs))) \<and>
   prefix (initial_messages q) (messages (snd (run_conversation env q verbose))) \<and>
   list_all (\<lambda>r. prefix (initial_messages q) (req_messages r) \<and>
                  prefix (req_messages r) (messages (snd (run_conversation env q verbose))))
     (completions (trace (snd (run_conversation env q verbose))))"
  using process_tool_call_prefix execute_tool_calls_prefix run_conversation_prefix
    run_conversation_requests
  by (simp add: append_message_def log_event_def)

subsection \<open>Exceptions of a handler\<close>

lemma process_tool_call_trace:
  assumes "process_tool_call env verbose st tc = (r, st')"
  shows "case json_loads env (fn_arguments (call_function tc)) of
           Inl e \<Rightarrow> r = Inl e \<and> st' = st
         | Inr a \<Rightarrow>
             (st' = st \<and> (\<exists>e. r = Inl e)) \<or>
             (trace st' = trace st @ [Invoke (fn_name (call_function tc)) a] \<and>
              (case handler_result env (fn_name (call_function tc)) a of
                 Inl e \<Rightarrow> r = Inl e \<and> messages st' = messages st
               | Inr resp \<Rightarrow>
                   (\<exists>c. r = Inr () \<and>
                        messages st' = messages st @ [Tool (call_id tc) (fn_name (call_function tc)) c]) \<or>
                   ((\<exists>e. r = Inl e) \<and> messages st' = messages st)))"
  using assms
  by (auto simp: process_tool_call_def handler_result_def Let_def append_message_def log_event_def
      split: sum.splits option.splits if_splits)

lemma process_tool_call_invoke:
  assumes "process_tool_call env verbose st tc = (r, st')"
  shows "(invocations (trace st') = invocations (trace st) \<and> messages st' = messages st \<and>
            (\<exists>e. r = Inl e)) \<or>
         (\<exists>n a. invocations (trace st') = invocations (trace st) @ [(n, a)] \<and>
            ((\<exists>resp. handler_result env n a = Inr resp \<and>
                 ((\<exists>m. r = Inr () \<and> is_tool m \<and> messages st' = messages st @ [m]) \<or>
                  ((\<exists>e. r = Inl e) \<and> messages st' = messages st))) \<or>
             (\<exists>e. handler_result env n a = Inl e \<and> r = Inl e \<and> messages st' = messages st)))"
proof (cases "json_loads env (fn_arguments (call_function tc))")
  case (Inl e)
  with process_tool_call_trace[OF assms] show ?thesis by simp
next
  case (Inr a)
  let ?n = "fn_name (call_function tc)"
  from process_tool_call_trace[OF assms] Inr
  consider "st' = st" "\<exists>e. r = Inl e"
    | e where "trace st' = trace st @ [Invoke ?n a]" "handler_result env ?n a = Inl e"
        "r = Inl e" "messages st' = messages st"
    | resp c where "trace st' = trace st @ [Invoke ?n a]" "handler_result env ?n a = Inr resp"
        "r = Inr ()" "messages st' = messages st @ [Tool (call_id tc) ?n c]"
    | resp e where "trace st' = trace st @ [Invoke ?n a]" "handler_result env ?n a = Inr resp"
        "r = Inl e" "messages st' = messages st"
    by (auto split: sum.splits)
  then show ?thesis
  proof cases
    case 1
    then show ?thesis by simp
  next
    case 2
    then show ?thesis
      by (intro disjI2 exI[of _ ?n] exI[of _ a]) (simp add: invocations_append)
  next
    case 3
    then show ?thesis
      by (intro disjI2 exI[of _ ?n] exI[of _ a]) (simp add: invocations_append)
  next
    case 4
    then show ?thesis
      by (intro disjI2 exI[of _ ?n] exI[of _ a]) (simp add: invocations_append)
  qed
qed

lemma execute_tool_calls_invoke:
  "execute_tool_calls env verbose st tcs = (r, st') \<Longrightarrow>
     \<exists>new rs. invocations (trace st') = invocations (trace st) @ new \<and>
       messages st' = messages st @ rs \<and> list_all is_tool rs \<and> length rs \<le> length new \<and>
       (\<forall>(n, a) \<in> set new. \<forall>e. handler_result env n a = Inl e \<longrightarrow>
           r = Inl e \<and> length rs < length new)"
proof (induction tcs arbitrary: st)
  case Nil
  then show ?case by simp
next
  case (Cons tc tcs)
  obtain r1 st1 where p: "process_tool_call env verbose st tc = (r1, st1)"
    by (cases "process_tool_call env verbose st tc")
  show ?case
  proof (cases r1)
    case (Inl e1)
    with p Cons.prems have eq: "r = Inl e1" "st' = st1" by simp_all
    from process_tool_call_invoke[OF p] Inl
    consider "invocations (trace st1) = invocations (trace st)" "messages st1 = messages st"
      | n a where "invocations (trace st1) = invocations (trace st) @ [(n, a)]"
          "messages st1 = messages st"
          "(\<exists>resp. handler_result env n a = Inr resp) \<or> handler_result env n a = Inl e1"
      by auto
    then show ?thesis
    proof cases
      case 1
      with eq show ?thesis
        by (intro exI[of _ "[]"]) simp
    next
      case 2
      with eq show ?thesis
        by (intro exI[of _ "[(n, a)]"] exI[of _ "[]"]) auto
    qed
  next
    case (Inr u1)
    with p Cons.prems have rest: "execute_tool_calls env verbose st1 tcs = (r, st')" by simp
    from process_tool_call_invoke[OF p] Inr obtain n a resp m where
      one: "invocations (trace st1) = invocations (trace st) @ [(n, a)]"
        "handler_result env n a = Inr resp" "is_tool m" "messages st1 = messages st @ [m]"
      by auto
    from Cons.IH[OF rest] obtain new rs where
      two: "invocations (trace st') = invocations (trace st1) @ new"
        "messages st' = messages st1 @ rs" "list_all is_tool rs" "length rs \<le> length new"
        "\<forall>(n, a) \<in> set new. \<forall>e. handler_result env n a = Inl e \<longrightarrow>
            r = Inl e \<and> length rs < length new"
      by blast
    from one two show ?thesis
      by (intro exI[of _ "(n, a) # new"] exI[of _ "m # rs"]) auto
  qed
qed

lemma calculate_returns: "\<exists>d. calculate ev x = Inr d"
  by (auto simp: calculate_def split: sum.splits bool.splits pyval.splits)

lemma handler_result_calculate:
  "\<exists>d. handler_result env ''calculate'' (PyDict [(''expression'', x)]) = Inr d"
  using calculate_returns[of "py_eval env" x]
  by (simp add: handler_result_def available_functions_def call_kwargs_def)

lemma filter_all: "list_all P xs \<Longrightarrow> filter P xs = xs"
  by (induction xs) auto

lemma demo_run_weather_5:
  "run_conversation demo ''Weather in 5'' False =
     (Inl (AttributeError (quote ''int'' @ '' object has no attribute '' @ quote ''lower'')),
      \<lparr>messages = initial_messages ''Weather in 5'' @ [Assistant (demo_first ''Weather in 5'')],
       trace = [Completion (first_request ''Weather in 5''),
                Invoke ''get_weather'' (PyDict [(''location'', PyInt 5)])]\<rparr>)"
  by code_simp

lemma demo_run_division:
  "run_conversation demo ''What is 1/0?'' False =
     (Inr (Some ''Done.''),
      \<lparr>messages = initial_messages ''What is 1/0?'' @
         [Assistant (demo_first ''What is 1/0?''),
          Tool ''call_1'' ''calculate'' ''{\"error\": \"division by zero\"}''],
       trace = [Completion (first_request ''What is 1/0?''),
                Invoke ''calculate'' (PyDict [(''expression'', PyStr ''1/0'')]),
                Completion (second_request (initial_messages ''What is 1/0?'' @
                  [Assistant (demo_first ''What is 1/0?''),
                   Tool ''call_1'' ''calculate'' ''{\"error\": \"division by zero\"}'']))]\<rparr>)"
  by code_simp

text \<open>
  C5, as the claim states it, fails for a failure inside \<open>calculate\<close>: evaluating
  \<^verbatim>\<open>1/0\<close> raises, \<open>calculate\<close> catches the exception and returns an error record,
  and the relay sends that record to the model as the tool result; the run ends with
  the answer of the second completion.
\<close>

theorem caught_failure_is_reported_counterexample:
  "py_eval demo ''1/0'' = Inl ''division by zero'' \<and>
   invocations (trace (snd (run_conversation demo ''What is 1/0?'' False))) =
     [(''calculate'', PyDict [(''expression'', PyStr ''1/0'')])] \<and>
   fst (run_conversation demo ''What is 1/0?'' False) = Inr (Some ''Done.'') \<and>
   completions (trace (snd (run_conversation demo ''What is 1/0?'' False))) =
     [first_request ''What is 1/0?'',
      second_request (initial_messages ''What is 1/0?'' @
        [Assistant (demo_first ''What is 1/0?''),
         Tool ''call_1'' ''calculate'' ''{\"error\": \"division by zero\"}''])]"
  by (simp add: demo_run_division) (simp add: demo_def demo_eval_def)

text \<open>
  C5, amended. When a handler call that a run made raises an exception (the call
  \<^verbatim>\<open>function_to_call(**function_args)\<close> of some tool call ends with an exception
  \<open>e\<close>), the run ends with that same exception, the first request is the only
  request it sent, and the conversation holds fewer tool messages than handlers were
  called: the failed call has none. The handler \<open>calculate\<close> never ends with an
  exception, whatever its argument: what fails inside it comes back as a value.
\<close>

theorem handler_exception_propagates:
  "(case run_conversation env q verbose of
      (r, st) \<Rightarrow>
        (\<forall>(n, a) \<in> set (invocations (trace st)). \<forall>e.
            handler_result env n a = Inl e \<longrightarrow>
              r = Inl e \<and> completions (trace st) = [first_request q] \<and>
              length (filter is_tool (messages st)) < length (invocations (trace st)))) \<and>
   (\<exists>d. handler_result env ''calculate'' (PyDict [(''expression'', x)]) = Inr d)"
proof -
  have "case run_conversation env q verbose of
      (r, st) \<Rightarrow>
        (\<forall>(n, a) \<in> set (invocations (trace st)). \<forall>e.
            handler_result env n a = Inl e \<longrightarrow>
              r = Inl e \<and> completions (trace st) = [first_request q] \<and>
              length (filter is_tool (messages st)) < length (invocations (trace st)))"
  proof (cases "create env (first_request q)")
    case (Inl e)
    then show ?thesis
      by (simp add: run_conversation_def chat_completions_create_def Let_def log_event_def)
  next
    case response: (Inr response)
    show ?thesis
    proof (cases "first_message response")
      case (Inl e)
      with response show ?thesis
        by (simp add: run_conversation_def chat_completions_create_def Let_def log_event_def)
    next
      case m: (Inr m)
      show ?thesis
      proof (cases "requested (tool_calls m) = []")
        case True
        with response m show ?thesis
          by (simp add: run_conversation_def chat_completions_create_def Let_def log_event_def)
      next
        case False
        let ?st2 = "append_message (Assistant m)
                      (log_event (Completion (first_request q))
                         \<lparr>messages = initial_messages q, trace = []\<rparr>)"
        obtain r3 st3 where ex: "execute_tool_calls env verbose ?st2 (requested (tool_calls m)) = (r3, st3)"
          by (cases "execute_tool_calls env verbose ?st2 (requested (tool_calls m))")
        from execute_tool_calls_completions[of env verbose ?st2 "requested (tool_calls m)"] ex
        have c3: "completions (trace st3) = [first_request q]"
          by (simp add: append_message_def log_event_def)
        from execute_tool_calls_invoke[OF ex] obtain new rs where
          inv: "invocations (trace st3) = new"
            "messages st3 = initial_messages q @ Assistant m # rs" "list_all is_tool rs"
            "\<forall>(n, a) \<in> set new. \<forall>e. handler_result env n a = Inl e \<longrightarrow>
                r3 = Inl e \<and> length rs < length new"
          by (auto simp: append_message_def log_event_def)
        from inv(2,3) have t3: "filter is_tool (messages st3) = rs"
          by (simp add: initial_messages_def filter_all)
        show ?thesis
        proof (cases r3)
          case (Inl e)
          with response m False ex c3 inv(1,4) t3 show ?thesis
            by (auto simp: run_conversation_def chat_completions_create_def Let_def)
        next
          case (Inr u)
          with inv(4) have none: "\<forall>(n, a) \<in> set new. \<forall>e. handler_result env n a \<noteq> Inl e"
            by auto
          have "invocations (trace (snd (run_conversation env q verbose))) = new"
            using response m False ex Inr inv(1)
            by (auto simp: run_conversation_def chat_completions_create_def Let_def log_event_def
                invocations_append split: sum.splits)
          with none show ?thesis
            by (auto split: prod.splits)
        qed
      qed
    qed
  qed
  with handler_result_calculate show ?thesis
    by blast
qed

theorem handler_exception_propagates_witness:
  "invocations (trace (snd (run_conversation demo ''Weather in 5'' False))) =
     [(''get_weather'', PyDict [(''location'', PyInt 5)])] \<and>
   handler_result demo ''get_weather'' (PyDict [(''location'', PyInt 5)]) =
     Inl (AttributeError (quote ''int'' @ '' object has no attribute '' @ quote ''lower'')) \<and>
   fst (run_conversation demo ''Weather in 5'' False) =
     Inl (AttributeError (quote ''int'' @ '' object has no attribute '' @ quote ''lower'')) \<and>
   completions (trace (snd (run_conversation demo ''Weather in 5'' False))) =
     [first_request ''Weather in 5''] \<and>
   length (filter is_tool (messages (snd (run_conversation demo ''Weather in 5'' False)))) <
     length (invocations (trace (snd (run_conversation demo ''Weather in 5'' False))))"
proof -
  have inv: "invocations (trace (snd (run_conversation demo ''Weather in 5'' False))) =
               [(''get_weather'', PyDict [(''location'', PyInt 5)])]"
    by (simp add: demo_run_weather_5)
  have hr: "handler_result demo ''get_weather'' (PyDict [(''location'', PyInt 5)]) =
              Inl (AttributeError (quote ''int'' @ '' object has no attribute '' @ quote ''lower''))"
    by code_simp
  from handler_exception_propagates[of demo "''Weather in 5''" False PyNone] inv hr show ?thesis
    by (auto split: prod.splits)
qed


section \<open>Properties of the handlers\<close>

subsection \<open>calculate\<close>

lemma all_allowed_chars:
  "all_allowed (map (\<lambda>c. PyStr [c]) s) = Inr (set s \<subseteq> allowed_chars)"
  by (induction s) auto

text \<open>
  C9. \<open>calculate\<close> returns a dictionary for every argument and every evaluator: it
  never ends with an exception. For a string with a character outside the allow-list
  the result is the record \<^verbatim>\<open>{"error": "Invalid characters in expression"}\<close>, the
  same for every evaluator, so the expression is not evaluated. For a string over the
  allow-list, an exception of the evaluation comes back as \<^verbatim>\<open>{"error": str(e)}\<close> and
  a value as \<^verbatim>\<open>{"expression": ..., "result": ...}\<close>.
\<close>

theorem calculate_never_raises:
  "(\<exists>d. calculate ev x = Inr (PyDict d)) \<and>
   (\<not> set s \<subseteq> allowed_chars \<longrightarrow>
      calculate ev (PyStr s) = Inr (PyDict [(''error'', PyStr ''Invalid characters in expression'')])) \<and>
   (set s \<subseteq> allowed_chars \<longrightarrow> ev s = Inl msg \<longrightarrow>
      calculate ev (PyStr s) = Inr (PyDict [(''error'', PyStr msg)])) \<and>
   (set s \<subseteq> allowed_chars \<longrightarrow> ev s = Inr v \<longrightarrow>
      calculate ev (PyStr s) = Inr (PyDict [(''expression'', PyStr s), (''result'', v)]))"
proof -
  have "\<exists>d. calculate ev x = Inr (PyDict d)"
    by (auto simp: calculate_def split: sum.splits bool.splits pyval.splits)
  moreover have "calculate ev (PyStr s) =
      (if set s \<subseteq> allowed_chars
       then (case ev s of
               Inl msg \<Rightarrow> Inr (PyDict [(''error'', PyStr msg)])
             | Inr v \<Rightarrow> Inr (PyDict [(''expression'', PyStr s), (''result'', v)]))
       else Inr (PyDict [(''error'', PyStr ''Invalid characters in expression'')]))"
    by (simp add: calculate_def iterate_def all_allowed_chars bool.case_eq_if subset_eq)
  ultimately show ?thesis
    by simp
qed

theorem calculate_never_raises_witness:
  "(\<exists>d. calculate demo_eval (PyInt 3) = Inr (PyDict d)) \<and>
   \<not> set ''import os'' \<subseteq> allowed_chars \<and>
   calculate demo_eval (PyStr ''import os'') =
     Inr (PyDict [(''error'', PyStr ''Invalid characters in expression'')]) \<and>
   set ''1/0'' \<subseteq> allowed_chars \<and>
   demo_eval ''1/0'' = Inl ''division by zero'' \<and>
   calculate demo_eval (PyStr ''1/0'') = Inr (PyDict [(''error'', PyStr ''division by zero'')]) \<and>
   set ''2 + 2'' \<subseteq> allowed_chars \<and>
   demo_eval ''2 + 2'' = Inr (PyInt 4) \<and>
   calculate demo_eval (PyStr ''2 + 2'') =
     Inr (PyDict [(''expression'', PyStr ''2 + 2''), (''result'', PyInt 4)])"
proof -
  have h1: "\<not> set ''import os'' \<subseteq> allowed_chars"
    by (simp add: allowed_chars_def)
  have h2: "set ''1/0'' \<subseteq> allowed_chars" "demo_eval ''1/0'' = Inl ''division by zero''"
    by (simp_all add: allowed_chars_def demo_eval_def)
  have h3: "set ''2 + 2'' \<subseteq> allowed_chars" "demo_eval ''2 + 2'' = Inr (PyInt 4)"
    by (simp_all add: allowed_chars_def demo_eval_def)
  from calculate_never_raises[of demo_eval "PyInt 3" "''import os''"] h1
  have c1: "\<exists>d. calculate demo_eval (PyInt 3) = Inr (PyDict d)"
    and c2: "calculate demo_eval (PyStr ''import os'') =
               Inr (PyDict [(''error'', PyStr ''Invalid characters in expression'')])"
    by blast+
  from calculate_never_raises[of demo_eval "PyInt 3" "''1/0''" "''division by zero''"] h2
  have c3: "calculate demo_eval (PyStr ''1/0'') = Inr (PyDict [(''error'', PyStr ''division by zero'')])"
    by blast
  from calculate_never_raises[of demo_eval "PyInt 3" "''2 + 2''" _ "PyInt 4"] h3
  have c4: "calculate demo_eval (PyStr ''2 + 2'') =
              Inr (PyDict [(''expression'', PyStr ''2 + 2''), (''result'', PyInt 4)])"
    by blast
  from h1 h2 h3 c1 c2 c3 c4 show ?thesis
    by blast
qed

subsection \<open>get\_weather and get\_stock\_price\<close>

text \<open>
  The statements of this subsection hold for every function in the place of
  \<^verbatim>\<open>str.lower\<close> and \<^verbatim>\<open>str.upper\<close>, so for the two methods themselves, on every
  string. Where \<^verbatim>\<open>str.lower\<close> maps a location with a character outside ASCII to the
  key of an entry, as it maps the Kelvin sign (U+212A) to \<^verbatim>\<open>k\<close>, the handler returns
  that entry:
\<close>

lemma get_weather_kelvin_example:
  assumes "lower [CHR ''t'', CHR ''o'', CHR 0xE2, CHR 0x84, CHR 0xAA, CHR ''y'', CHR ''o''] = ''tokyo''"
  shows "get_weather lower
           (PyStr [CHR ''t'', CHR ''o'', CHR 0xE2, CHR 0x84, CHR 0xAA, CHR ''y'', CHR ''o'']) unit =
         Inr (PyDict
           [(''location'', PyStr [CHR ''t'', CHR ''o'', CHR 0xE2, CHR 0x84, CHR 0xAA, CHR ''y'', CHR ''o'']),
            (''temperature'', PyInt 18), (''unit'', unit), (''condition'', PyStr ''Rainy''),
            (''humidity'', PyInt 80)])"
  using assms by (simp add: get_weather_def weather_data_def Let_def)

lemma get_stock_price_aapl: "get_stock_price ascii_upper (PyStr ''AAPL'') = Inr aapl_record"
  by code_simp

text \<open>
  C10, as the claim states it, fails for \<open>get_weather\<close>: the record it returns holds
  the location as it was given, so two locations with the same lowercase form yield
  different records.
\<close>

theorem get_weather_echoes_location_counterexample:
  "ascii_lower ''London'' = ascii_lower ''london'' \<and>
   get_weather ascii_lower (PyStr ''London'') (PyStr ''celsius'') \<noteq>
   get_weather ascii_lower (PyStr ''london'') (PyStr ''celsius'')"
  by (simp add: get_weather_def ascii_lower_def Let_def)

text \<open>
  C10, amended. For every location string \<open>get_weather\<close> returns a record (it never
  fails); its temperature, condition and humidity are those of the table entry for the
  lowercase location, and 20, \<^verbatim>\<open>"Unknown"\<close> and 50 when the table has no such entry;
  its location is the string as given and its unit the unit as given. For every symbol
  string \<open>get_stock_price\<close> returns a record that is determined by the uppercase
  symbol alone: that symbol and the price, change and change\_percent of its table
  entry, or 0, 0 and 0 when the table has no such entry. Here \<open>lower\<close> and
  \<open>upper\<close> stand for \<^verbatim>\<open>str.lower\<close> and \<^verbatim>\<open>str.upper\<close>.
\<close>

theorem lookup_handlers_case_insensitive:
  "get_weather lower (PyStr location) unit =
     Inr (PyDict [(''location'', PyStr location),
                  (''temperature'', PyInt (temp (weather_at (lower location)))),
                  (''unit'', unit),
                  (''condition'', PyStr (condition (weather_at (lower location)))),
                  (''humidity'', PyInt (humidity (weather_at (lower location))))]) \<and>
   (lower location \<notin> fst ` set weather_data \<longrightarrow>
      weather_at (lower location) = \<lparr>temp = 20, condition = ''Unknown'', humidity = 50\<rparr>) \<and>
   get_stock_price upper (PyStr symbol) =
     Inr (PyDict [(''symbol'', PyStr (upper symbol)),
                  (''price'', price (stock_at (upper symbol))),
                  (''change'', change (stock_at (upper symbol))),
                  (''change_percent'', change_percent (stock_at (upper symbol)))]) \<and>
   (upper symbol \<notin> fst ` set stock_data \<longrightarrow>
      stock_at (upper symbol) = \<lparr>price = PyInt 0, change = PyInt 0, change_percent = PyInt 0\<rparr>)"
proof -
  have "lower location \<notin> fst ` set weather_data \<Longrightarrow> map_of weather_data (lower location) = None"
    by (simp add: map_of_eq_None_iff)
  moreover have "upper symbol \<notin> fst ` set stock_data \<Longrightarrow> map_of stock_data (upper symbol) = None"
    by (simp add: map_of_eq_None_iff)
  ultimately show ?thesis
    by (simp add: get_weather_def get_stock_price_def weather_at_def stock_at_def Let_def)
qed

theorem lookup_handlers_case_insensitive_witness:
  "ascii_lower ''Atlantis'' \<notin> fst ` set weather_data \<and>
   get_weather ascii_lower (PyStr ''Atlantis'') (PyStr ''celsius'') =
     Inr (PyDict [(''location'', PyStr ''Atlantis''), (''temperature'', PyInt 20),
                  (''unit'', PyStr ''celsius''), (''condition'', PyStr ''Unknown''),
                  (''humidity'', PyInt 50)]) \<and>
   ascii_upper ''xyz'' \<notin> fst ` set stock_data \<and>
   get_stock_price ascii_upper (PyStr ''xyz'') =
     Inr (PyDict [(''symbol'', PyStr ''XYZ''), (''price'', PyInt 0), (''change'', PyInt 0),
                  (''change_percent'', PyInt 0)])"
proof -
  have h1: "ascii_lower ''Atlantis'' \<notin> fst ` set weather_data"
    by (simp add: ascii_lower_def weather_data_def)
  have h2: "ascii_upper ''xyz'' \<notin> fst ` set stock_data"
    by (simp add: ascii_upper_def stock_data_def)
  have u: "ascii_upper ''xyz'' = ''XYZ''"
    by (simp add: ascii_upper_def)
  from lookup_handlers_case_insensitive[of ascii_lower "''Atlantis''" "PyStr ''celsius''" ascii_upper "''xyz''"]
    h1 h2 u
  show ?thesis
    by simp
qed


section \<open>Properties of PersonProfile\<close>

lemma model_validate_accepts_example: "model_validate (\<lambda>_. Inl ''int_type'')
        (PyDict [(''name'', PyStr '' Bob ''), (''age'', PyInt 42), (''occupation'', PyStr ''Engineer'')]) =
        Inr \<lparr>name = ''Bob'', age = 42, occupation = ''Engineer''\<rparr>"
  by code_simp

text \<open>
  C7. A dictionary whose \<^verbatim>\<open>age\<close> is 200 fails \<open>model_validate\<close>, whatever its other
  entries are, with an error of the upper bound of \<^verbatim>\<open>age\<close> among the errors. In
  \<open>example_with_validation_error\<close> the validation of \<open>invalid_data\<close> fails with the
  errors of \<^verbatim>\<open>name\<close> and \<^verbatim>\<open>age\<close>, and the requests sent are the same after the
  function as before it: no completion request is issued.
\<close>

theorem age_200_fails_validation:
  "(map_of kvs ''age'' = Some (PyInt 200) \<longrightarrow>
      (\<exists>errors. model_validate p (PyDict kvs) = Inl errors \<and>
                \<lparr>loc = ''age'', error_type = ''less_than_equal''\<rparr> \<in> set errors)) \<and>
   example_with_validation_error p sent =
     (Some [\<lparr>loc = ''name'', error_type = ''value_error''\<rparr>,
            \<lparr>loc = ''age'', error_type = ''less_than_equal''\<rparr>], sent)"
proof -
  have "validate_age p (Some (PyInt 200)) = Inl \<lparr>loc = ''age'', error_type = ''less_than_equal''\<rparr>"
    by (simp add: validate_age_def to_int_def)
  then have "map_of kvs ''age'' = Some (PyInt 200) \<Longrightarrow>
      \<exists>errors. model_validate p (PyDict kvs) = Inl errors \<and>
                \<lparr>loc = ''age'', error_type = ''less_than_equal''\<rparr> \<in> set errors"
    by (auto simp: model_validate_def Let_def split: sum.splits)
  moreover have "model_validate p invalid_data =
      Inl [\<lparr>loc = ''name'', error_type = ''value_error''\<rparr>,
           \<lparr>loc = ''age'', error_type = ''less_than_equal''\<rparr>]"
    by (simp add: model_validate_def invalid_data_def validate_str_def validate_age_def to_int_def
        name_must_not_be_empty_def strip_def whitespace_def Let_def)
  ultimately show ?thesis
    by (simp add: example_with_validation_error_def)
qed

theorem age_200_fails_validation_witness:
  "map_of [(''name'', PyStr ''Bob''), (''age'', PyInt 200), (''occupation'', PyStr ''Engineer'')] ''age'' =
     Some (PyInt 200) \<and>
   (\<exists>errors.
      model_validate (\<lambda>_. Inl ''int_type'')
        (PyDict [(''name'', PyStr ''Bob''), (''age'', PyInt 200), (''occupation'', PyStr ''Engineer'')]) =
        Inl errors \<and>
      \<lparr>loc = ''age'', error_type = ''less_than_equal''\<rparr> \<in> set errors) \<and>
   example_with_validation_error (\<lambda>_. Inl ''int_type'') [] =
     (Some [\<lparr>loc = ''name'', error_type = ''value_error''\<rparr>,
            \<lparr>loc = ''age'', error_type = ''less_than_equal''\<rparr>], [])"
proof -
  have h: "map_of [(''name'', PyStr ''Bob''), (''age'', PyInt 200), (''occupation'', PyStr ''Engineer'')] ''age'' =
             Some (PyInt 200)"
    by simp
  from age_200_fails_validation[of "[(''name'', PyStr ''Bob''), (''age'', PyInt 200), (''occupation'', PyStr ''Engineer'')]" "\<lambda>_. Inl ''int_type''" "[]"] h
  show ?thesis
    by blast
qed

end
